theory Spec2Isabelle
  imports Main "HOL-Library.Word"
begin

unbundle bit_operations_syntax

section \<open>Machine types (64-bit PowerPC)\<close>

text \<open>
  The model is the CONFIG_PPC64 build of \<^verbatim>\<open>arch/powerpc/lib/code-patching.c\<close>:
  \<^verbatim>\<open>unsigned long\<close>, \<^verbatim>\<open>long\<close> and pointers are 64-bit words, \<^verbatim>\<open>int\<close>,
  \<^verbatim>\<open>unsigned int\<close> and \<^verbatim>\<open>u32\<close> are 32-bit words. Signedness is not part of the type:
  it is chosen by the operation (\<open>word_sle\<close> for a signed comparison, \<open>scast\<close> for a
  sign-extending conversion, \<open>ucast\<close> for a zero-extending or truncating one).
\<close>

type_synonym u32 = "32 word"
type_synonym u64 = "64 word"
type_synonym cint = "32 word"

text \<open>Memory holds one 32-bit instruction word at each (4-byte aligned) address.\<close>

type_synonym memory = "u64 \<Rightarrow> u32"

section \<open>Instructions (asm/inst.h)\<close>

text \<open>
  \<^verbatim>\<open>struct ppc_inst\<close>, its accessors and the two branch flags are declared in asm/inst.h
  and asm/code-patching.h, which are not among the sources. They are modelled from the
  spec's Instruction Codec and data model, and agree with the self-tests at the end of
  code-patching.c (\<^verbatim>\<open>instr_is_branch_iform(ppc_inst(0x48000000))\<close> holds, so the primary
  opcode is the top six bits).
\<close>

text \<open>Modelled from the spec: \<^verbatim>\<open>struct ppc_inst\<close> is missing; an Instruction is "an opaque
  fixed- or double-width binary value", here the first word and the suffix word.\<close>

record ppc_inst =
  val :: u32
  suffix :: u32

text \<open>Modelled from the spec: the macro \<^verbatim>\<open>ppc_inst()\<close> is missing; it builds a
  single-width instruction, whose suffix field holds the marker 0xff.\<close>

definition ppc_inst :: "u32 \<Rightarrow> ppc_inst" where
  "ppc_inst x = \<lparr>val = x, suffix = 0xff\<rparr>"

text \<open>Modelled from the spec: the macro \<^verbatim>\<open>ppc_inst_prefix()\<close> is missing; it builds a
  double-width instruction from "a 32-bit prefix plus a 32-bit suffix".\<close>

definition ppc_inst_prefix :: "u32 \<Rightarrow> u32 \<Rightarrow> ppc_inst" where
  "ppc_inst_prefix x y = \<lparr>val = x, suffix = y\<rparr>"

text \<open>Modelled from the spec: \<^verbatim>\<open>ppc_inst_val\<close> is missing; it is the first word of the
  binary value.\<close>

definition ppc_inst_val :: "ppc_inst \<Rightarrow> u32" where
  "ppc_inst_val x = val x"

text \<open>Modelled from the spec: \<^verbatim>\<open>ppc_inst_suffix\<close> is missing; it is the second word.\<close>

definition ppc_inst_suffix :: "ppc_inst \<Rightarrow> u32" where
  "ppc_inst_suffix x = suffix x"

text \<open>Modelled from the spec: \<^verbatim>\<open>ppc_inst_primary_opcode\<close> is missing; it is the "6-bit
  primary opcode", the top six bits of the first word.\<close>

definition ppc_inst_primary_opcode :: "ppc_inst \<Rightarrow> u32" where
  "ppc_inst_primary_opcode x = drop_bit 26 (ppc_inst_val x)"

text \<open>Modelled from the spec: \<^verbatim>\<open>ppc_inst_prefixed\<close> is missing; "a width-discriminant
  subset of encodings is wide": the prefix opcode 1 with a real suffix.\<close>

definition ppc_inst_prefixed :: "ppc_inst \<Rightarrow> bool" where
  "ppc_inst_prefixed x \<longleftrightarrow> ppc_inst_primary_opcode x = 1 \<and> ppc_inst_suffix x \<noteq> 0xff"

text \<open>Modelled from the spec: \<^verbatim>\<open>ppc_inst_read\<close> is missing; it "reads either a single
  32-bit word or, if the word matches a reserved wide-instruction opcode prefix, a 32-bit
  prefix plus a 32-bit suffix".\<close>

definition ppc_inst_read :: "memory \<Rightarrow> u64 \<Rightarrow> ppc_inst" where
  "ppc_inst_read m ptr =
     (let v = m ptr
      in if drop_bit 26 v = 1 then ppc_inst_prefix v (m (ptr + 4)) else ppc_inst v)"

text \<open>Modelled from the spec: \<^verbatim>\<open>ppc_inst_equal\<close> is missing; "two instructions are equal
  iff their encodings are bit-identical".\<close>

definition ppc_inst_equal :: "ppc_inst \<Rightarrow> ppc_inst \<Rightarrow> bool" where
  "ppc_inst_equal x y \<longleftrightarrow> val x = val y \<and> suffix x = suffix y"

text \<open>Modelled from the spec: the macros \<^verbatim>\<open>BRANCH_SET_LINK\<close> and \<^verbatim>\<open>BRANCH_ABSOLUTE\<close> are
  missing; the "absolute-addressing bit and link-set bit occupy the low 2 bits", placed as
  in the drawing in \<^verbatim>\<open>is_offset_in_branch_range\<close> (AA before LK, LK the lowest bit).\<close>

abbreviation BRANCH_SET_LINK :: "32 word" where
  "BRANCH_SET_LINK \<equiv> 0x1"

abbreviation BRANCH_ABSOLUTE :: "32 word" where
  "BRANCH_ABSOLUTE \<equiv> 0x2"

section \<open>Branch encoding and decoding\<close>

text \<open>\<^verbatim>\<open>bool is_offset_in_branch_range(long offset)\<close>\<close>

definition is_offset_in_branch_range :: "u64 \<Rightarrow> bool" where
  "is_offset_in_branch_range offset \<longleftrightarrow>
     word_sle (- 0x2000000) offset \<and> word_sle offset 0x1fffffc \<and> \<not> (offset AND 0x3 \<noteq> 0)"

text \<open>\<^verbatim>\<open>bool is_conditional_branch(struct ppc_inst instr)\<close>\<close>

definition is_conditional_branch :: "ppc_inst \<Rightarrow> bool" where
  "is_conditional_branch instr =
     (let opcode = ppc_inst_primary_opcode instr
      in if opcode = 16 then True
         else if opcode = 19 then
           (let sw = drop_bit 1 (ppc_inst_val instr) AND 0x3ff
            in if sw = 16 \<or> sw = 528 \<or> sw = 560 then True else False)
         else False)"

text \<open>
  \<^verbatim>\<open>int create_branch(struct ppc_inst *instr, const struct ppc_inst *addr,
  unsigned long target, int flags)\<close>. The first argument of the model is the content of
  \<^verbatim>\<open>*instr\<close> before the call, the result is the returned status and the content of
  \<^verbatim>\<open>*instr\<close> after it. The instruction word is computed in \<^verbatim>\<open>long\<close> (the \<^verbatim>\<open>int\<close>
  operand is sign-extended) and truncated to \<^verbatim>\<open>u32\<close> by \<^verbatim>\<open>ppc_inst()\<close>.
\<close>

definition create_branch :: "ppc_inst \<Rightarrow> u64 \<Rightarrow> u64 \<Rightarrow> cint \<Rightarrow> int \<times> ppc_inst" where
  "create_branch instr addr target flags =
     (let instr0 = ppc_inst 0;
          offset = (if flags AND BRANCH_ABSOLUTE = 0 then target - addr else target)
      in if \<not> is_offset_in_branch_range offset then (1, instr0)
         else (0, ppc_inst (ucast ((scast (0x48000000 OR (flags AND 0x3)) :: u64)
                                     OR (offset AND 0x03FFFFFC)))))"

text \<open>\<^verbatim>\<open>int create_cond_branch(struct ppc_inst *instr, const struct ppc_inst *addr,
  unsigned long target, int flags)\<close>\<close>

definition create_cond_branch :: "ppc_inst \<Rightarrow> u64 \<Rightarrow> u64 \<Rightarrow> cint \<Rightarrow> int \<times> ppc_inst" where
  "create_cond_branch instr addr target flags =
     (let offset = (if flags AND BRANCH_ABSOLUTE = 0 then target - addr else target)
      in if word_sless offset (- 0x8000) \<or> word_sless 0x7FFF offset \<or> offset AND 0x3 \<noteq> 0
         then (1, instr)
         else (0, ppc_inst (ucast ((scast (0x40000000 OR (flags AND 0x3FF0003)) :: u64)
                                     OR (offset AND 0xFFFC)))))"

definition branch_opcode :: "ppc_inst \<Rightarrow> u32" where
  "branch_opcode instr = ppc_inst_primary_opcode instr AND 0x3F"

definition instr_is_branch_iform :: "ppc_inst \<Rightarrow> bool" where
  "instr_is_branch_iform instr \<longleftrightarrow> branch_opcode instr = 18"

definition instr_is_branch_bform :: "ppc_inst \<Rightarrow> bool" where
  "instr_is_branch_bform instr \<longleftrightarrow> branch_opcode instr = 16"

definition instr_is_relative_branch :: "ppc_inst \<Rightarrow> bool" where
  "instr_is_relative_branch instr =
     (if ppc_inst_val instr AND BRANCH_ABSOLUTE \<noteq> 0 then False
      else instr_is_branch_iform instr \<or> instr_is_branch_bform instr)"

definition instr_is_relative_link_branch :: "ppc_inst \<Rightarrow> bool" where
  "instr_is_relative_link_branch instr \<longleftrightarrow>
     instr_is_relative_branch instr \<and> ppc_inst_val instr AND BRANCH_SET_LINK \<noteq> 0"

text \<open>
  \<^verbatim>\<open>static unsigned long branch_iform_target(const struct ppc_inst *instr)\<close>: the pointer
  is an address into memory; \<^verbatim>\<open>ppc_inst_val(*instr)\<close> is the word stored there. The
  masked word is an \<^verbatim>\<open>unsigned int\<close> and is zero-extended into the \<^verbatim>\<open>signed long\<close>.
\<close>

definition branch_iform_target :: "memory \<Rightarrow> u64 \<Rightarrow> u64" where
  "branch_iform_target m instr =
     (let imm = (ucast (m instr AND 0x3FFFFFC) :: u64);
          imm = (if imm AND 0x2000000 \<noteq> 0 then imm - 0x4000000 else imm);
          imm = (if m instr AND BRANCH_ABSOLUTE = 0 then imm + instr else imm)
      in imm)"

definition branch_bform_target :: "memory \<Rightarrow> u64 \<Rightarrow> u64" where
  "branch_bform_target m instr =
     (let imm = (ucast (m instr AND 0xFFFC) :: u64);
          imm = (if imm AND 0x8000 \<noteq> 0 then imm - 0x10000 else imm);
          imm = (if m instr AND BRANCH_ABSOLUTE = 0 then imm + instr else imm)
      in imm)"

definition branch_target :: "memory \<Rightarrow> u64 \<Rightarrow> u64" where
  "branch_target m instr =
     (if instr_is_branch_iform (ppc_inst_read m instr) then branch_iform_target m instr
      else if instr_is_branch_bform (ppc_inst_read m instr) then branch_bform_target m instr
      else 0)"

definition instr_is_branch_to_addr :: "memory \<Rightarrow> u64 \<Rightarrow> u64 \<Rightarrow> bool" where
  "instr_is_branch_to_addr m instr addr =
     (if instr_is_branch_iform (ppc_inst_read m instr) \<or>
         instr_is_branch_bform (ppc_inst_read m instr)
      then branch_target m instr = addr
      else False)"

text \<open>
  \<^verbatim>\<open>int translate_branch(struct ppc_inst *instr, const struct ppc_inst *dest,
  const struct ppc_inst *src)\<close>: the instruction word read at \<^verbatim>\<open>src\<close> is passed as the
  \<^verbatim>\<open>int flags\<close> of the encoder (a conversion between 32-bit types, which keeps the bits).
\<close>

definition translate_branch :: "ppc_inst \<Rightarrow> u64 \<Rightarrow> memory \<Rightarrow> u64 \<Rightarrow> int \<times> ppc_inst" where
  "translate_branch instr dest m src =
     (let target = branch_target m src
      in if instr_is_branch_iform (ppc_inst_read m src)
         then create_branch instr dest target (ppc_inst_val (ppc_inst_read m src))
         else if instr_is_branch_bform (ppc_inst_read m src)
         then create_cond_branch instr dest target (ppc_inst_val (ppc_inst_read m src))
         else (1, instr))"

section \<open>The machine state of the patching code\<close>

text \<open>
  The patching functions act on memory, on the page table of the scratch address space and
  on per-CPU state. A pointer to an address space is an option, \<open>None\<close> for NULL. Their effects are written as explicit state passing on the record
  \<open>machine\<close>. Memory is indexed by kernel virtual address; a page frame is named by the
  page-aligned kernel virtual address that it backs. The field \<open>accessed\<close> records every
  address that a load or store of the patching code was issued to, latest first.
\<close>

type_synonym mm_struct = nat

datatype pgprot = PAGE_KERNEL | PAGE_SHARED

record arch_hw_breakpoint =
  brk_address :: u64
  brk_type :: nat

record machine =
  mem :: memory
  accessed :: "u64 list"
  init_mem_is_free :: bool
  patching_mm :: "mm_struct option"
  patching_addr :: u64
  scratch_pte :: "(u64 \<times> pgprot) option"
  scratch_tlb :: "u64 option"
  ptl_locked :: bool
  active_mm :: "mm_struct option"
  breakpoints :: "arch_hw_breakpoint list"
  user_access_open :: bool
  patching_lock_held :: bool
  irqs_disabled :: bool
  warned :: bool

text \<open>
  Build-time configuration, boot-time choices and the outcomes of the external services
  that the patching code consumes (page-table and hash-table primitives, the reclaimed
  init-section query). They are parameters of the model.
\<close>

record environment =
  strict_kernel_rwx :: bool
  ppc_book3s_64 :: bool
  radix_enabled :: bool
  page_shift :: nat
  ppc_breakpoint_available :: bool
  init_section_contains :: "u64 \<Rightarrow> nat \<Rightarrow> bool"
  is_vmalloc_or_module_addr :: "u64 \<Rightarrow> bool"
  kernel_store_ok :: "u64 \<Rightarrow> bool"
  get_locked_pte_ok :: bool
  slb_allocate_user :: int
  hash_page_mm :: int

abbreviation EFAULT :: int where
  "EFAULT \<equiv> 14"

text \<open>Modelled from the spec: the macro \<^verbatim>\<open>offset_in_page\<close> is missing; it is "the target
  address's in-page offset".\<close>

definition offset_in_page :: "environment \<Rightarrow> u64 \<Rightarrow> u64" where
  "offset_in_page e p = p AND mask (page_shift e)"

text \<open>Modelled from the spec: the macro \<^verbatim>\<open>PAGE_MASK\<close> is missing; it selects the page
  part of an address, the complement of the in-page offset.\<close>

definition PAGE_MASK :: "environment \<Rightarrow> u64" where
  "PAGE_MASK e = NOT (mask (page_shift e))"

text \<open>Modelled from the spec: \<^verbatim>\<open>virt_to_page\<close> and \<^verbatim>\<open>vmalloc_to_page\<close> are missing;
  page-frame resolution is a consumed external service, and "the target may be in the main
  program image or in a dynamically loaded extension: both resolve to a page frame". A
  frame is named by the page-aligned kernel address that it backs.\<close>

definition virt_to_page :: "environment \<Rightarrow> u64 \<Rightarrow> u64" where
  "virt_to_page e addr = addr AND PAGE_MASK e"

definition vmalloc_to_page :: "environment \<Rightarrow> u64 \<Rightarrow> u64" where
  "vmalloc_to_page e addr = addr AND PAGE_MASK e"

text \<open>Modelled from the spec: address translation is done by the hardware. An address in
  the scratch page is a user address of the patching address space: it is reachable only
  while that address space is active (and, outside Book3S-64, while user access is open),
  through the cached translation or the scratch page-table entry ("the aliasing is the
  only path that is ever writable"). Any other address is a kernel address, writable where
  the environment says so.\<close>

definition store_location :: "environment \<Rightarrow> machine \<Rightarrow> u64 \<Rightarrow> u64 option" where
  "store_location e s a =
     (if patching_mm s \<noteq> None \<and> a AND PAGE_MASK e = patching_addr s then
        (if patching_mm s = active_mm s \<and> (ppc_book3s_64 e \<or> user_access_open s) then
           (case scratch_tlb s of
              Some pg \<Rightarrow> Some (pg OR offset_in_page e a)
            | None \<Rightarrow>
                (case scratch_pte s of
                   Some (pg, prot) \<Rightarrow> Some (pg OR offset_in_page e a)
                 | None \<Rightarrow> None))
         else None)
      else if kernel_store_ok e a then Some a else None)"

text \<open>Storing consecutive instruction words.\<close>

fun put_words :: "memory \<Rightarrow> u64 \<Rightarrow> u32 list \<Rightarrow> memory" where
  "put_words m a [] = m"
| "put_words m a (w # ws) = put_words (m(a := w)) (a + 4) ws"

text \<open>Modelled from the spec: the macro \<^verbatim>\<open>__put_kernel_nofault\<close> is missing; it is the
  "write primitive that can report failure on an invalid destination instead of crashing".
  \<open>False\<close> is the jump to the label \<^verbatim>\<open>failed\<close>.\<close>

definition put_kernel_nofault :: "environment \<Rightarrow> machine \<Rightarrow> u64 \<Rightarrow> u32 list \<Rightarrow> bool \<times> machine" where
  "put_kernel_nofault e s a ws =
     (let s1 = s\<lparr>accessed := a # accessed s\<rparr>
      in case store_location e s1 a of
           None \<Rightarrow> (False, s1)
         | Some loc \<Rightarrow> (True, s1\<lparr>mem := put_words (mem s1) loc ws\<rparr>))"

text \<open>\<^verbatim>\<open>static int __patch_instruction(struct ppc_inst *exec_addr, struct ppc_inst instr,
  struct ppc_inst *patch_addr)\<close>, named \<open>uu_patch_instruction\<close> here. The cache
  maintenance instructions do not change the modelled state.\<close>

definition uu_patch_instruction :: "environment \<Rightarrow> machine \<Rightarrow> u64 \<Rightarrow> ppc_inst \<Rightarrow> u64 \<Rightarrow> int \<times> machine" where
  "uu_patch_instruction e s exec_addr instr patch_addr =
     (let ws = (if \<not> ppc_inst_prefixed instr then [ppc_inst_val instr]
                else [ppc_inst_val instr, ppc_inst_suffix instr]);
          (ok, s') = put_kernel_nofault e s patch_addr ws
      in if ok then (0, s') else (- EFAULT, s'))"

definition raw_patch_instruction :: "environment \<Rightarrow> machine \<Rightarrow> u64 \<Rightarrow> ppc_inst \<Rightarrow> int \<times> machine" where
  "raw_patch_instruction e s addr instr = uu_patch_instruction e s addr instr addr"

subsection \<open>The temporary address space\<close>

text \<open>
  The lock and interrupt assertions (\<^verbatim>\<open>lockdep_assert_held\<close>,
  \<^verbatim>\<open>lockdep_assert_irqs_disabled\<close>), the warning on a non-local address space and the
  bookkeeping of the SLB preload and of the CPU mask of the temporary address space do not
  change the modelled state and are left out.
\<close>

record temp_mm =
  temp :: "mm_struct option"
  prev :: "mm_struct option"
  brk :: "arch_hw_breakpoint list"

record patch_mapping =
  ptep :: bool
  pm_temp_mm :: temp_mm

definition null_brk :: arch_hw_breakpoint where
  "null_brk = \<lparr>brk_address = 0, brk_type = 0\<rparr>"

text \<open>\<^verbatim>\<open>init_temp_mm\<close>: \<^verbatim>\<open>memset\<close> clears every saved breakpoint slot.\<close>

definition init_temp_mm :: "machine \<Rightarrow> mm_struct option \<Rightarrow> temp_mm" where
  "init_temp_mm s mm =
     \<lparr>temp = mm, prev = None, brk = replicate (length (breakpoints s)) null_brk\<rparr>"

text \<open>\<^verbatim>\<open>use_temporary_mm\<close>: the loop over the watchpoint slots saves each slot and clears
  the ones in use.\<close>

definition use_temporary_mm :: "environment \<Rightarrow> machine \<Rightarrow> temp_mm \<Rightarrow> temp_mm \<times> machine" where
  "use_temporary_mm e s tm =
     (let tm1 = tm\<lparr>prev := active_mm s\<rparr>;
          s1 = s\<lparr>active_mm := temp tm1\<rparr>
      in if ppc_breakpoint_available e then
           (tm1\<lparr>brk := breakpoints s1\<rparr>,
            s1\<lparr>breakpoints :=
                  map (\<lambda>b. if brk_type b \<noteq> 0 then null_brk else b) (breakpoints s1)\<rparr>)
         else (tm1, s1))"

text \<open>\<^verbatim>\<open>unuse_temporary_mm\<close>: the switch back to \<^verbatim>\<open>prev\<close>, then the loop that restores
  the saved watchpoint slots that were in use.\<close>

definition unuse_temporary_mm :: "environment \<Rightarrow> machine \<Rightarrow> temp_mm \<Rightarrow> machine" where
  "unuse_temporary_mm e s tm =
     (let s1 = s\<lparr>active_mm := prev tm\<rparr>
      in if ppc_breakpoint_available e then
           s1\<lparr>breakpoints :=
                 map (\<lambda>(saved, cur). if brk_type saved \<noteq> 0 then saved else cur)
                     (zip (brk tm) (breakpoints s1))\<rparr>
         else s1)"

text \<open>\<^verbatim>\<open>hash_prefault_mapping\<close>, the CONFIG_PPC_BOOK3S_64 variant and the stub of the other
  configurations. A successful \<^verbatim>\<open>hash_page_mm\<close> inserts the translation.\<close>

definition hash_prefault_mapping :: "environment \<Rightarrow> machine \<Rightarrow> pgprot \<Rightarrow> int \<times> machine" where
  "hash_prefault_mapping e s prot =
     (if ppc_book3s_64 e then
        (if radix_enabled e then (0, s)
         else
           (let err = slb_allocate_user e;
                err = hash_page_mm e;
                s1 = (if err = 0 then s\<lparr>scratch_tlb := map_option fst (scratch_pte s)\<rparr> else s)
            in (err, s1)))
      else (0, s))"

text \<open>\<^verbatim>\<open>static int map_patch(const void *addr, struct patch_mapping *patch_mapping)\<close>:
  the result is the status, the filled \<^verbatim>\<open>patch_mapping\<close> and the new state.\<close>

definition map_patch :: "environment \<Rightarrow> machine \<Rightarrow> u64 \<Rightarrow> patch_mapping \<Rightarrow> int \<times> patch_mapping \<times> machine" where
  "map_patch e s addr pm =
     (let page = (if is_vmalloc_or_module_addr e addr then vmalloc_to_page e addr
                  else virt_to_page e addr);
          prot = (if radix_enabled e then PAGE_KERNEL else PAGE_SHARED)
      in if \<not> get_locked_pte_ok e then (- 1, pm\<lparr>ptep := False\<rparr>, s)
         else
           (let s1 = s\<lparr>ptl_locked := True\<rparr>;
                s2 = s1\<lparr>scratch_pte := Some (page, prot)\<rparr>;
                tm = init_temp_mm s2 (patching_mm s2);
                (tm', s3) = use_temporary_mm e s2 tm;
                (err, s4) = hash_prefault_mapping e s3 prot
            in (err, \<lparr>ptep = True, pm_temp_mm = tm'\<rparr>, s4)))"

text \<open>\<^verbatim>\<open>static void unmap_patch(struct patch_mapping *patch_mapping)\<close>: with the hash MMU
  \<^verbatim>\<open>pte_clear\<close> flushes the translation, with radix \<^verbatim>\<open>local_flush_tlb_mm\<close> does.\<close>

definition unmap_patch :: "environment \<Rightarrow> machine \<Rightarrow> patch_mapping \<Rightarrow> machine" where
  "unmap_patch e s pm =
     (let s1 = s\<lparr>scratch_pte := None\<rparr>;
          s1 = (if \<not> radix_enabled e then s1\<lparr>scratch_tlb := None\<rparr> else s1);
          s2 = (if radix_enabled e then s1\<lparr>scratch_tlb := None\<rparr> else s1);
          s3 = s2\<lparr>ptl_locked := False\<rparr>
      in unuse_temporary_mm e s3 (pm_temp_mm pm))"

text \<open>\<^verbatim>\<open>WARN_ON(!ppc_inst_equal(ppc_inst_read(addr), instr))\<close>: a load from \<^verbatim>\<open>addr\<close>.\<close>

definition warn_on_mismatch :: "machine \<Rightarrow> u64 \<Rightarrow> ppc_inst \<Rightarrow> machine" where
  "warn_on_mismatch s addr instr =
     (let s1 = s\<lparr>accessed := addr # accessed s\<rparr>
      in if \<not> ppc_inst_equal (ppc_inst_read (mem s1) addr) instr
         then s1\<lparr>warned := True\<rparr> else s1)"

text \<open>\<^verbatim>\<open>static int do_patch_instruction(struct ppc_inst *addr, struct ppc_inst instr)\<close>, both
  the CONFIG_STRICT_KERNEL_RWX variant and the plain one. The local \<^verbatim>\<open>patch_mapping\<close> is
  uninitialised on entry; its initial content \<open>pm0\<close> is a parameter.\<close>

definition do_patch_instruction :: "environment \<Rightarrow> machine \<Rightarrow> patch_mapping \<Rightarrow> u64 \<Rightarrow> ppc_inst \<Rightarrow> int \<times> machine" where
  "do_patch_instruction e s pm0 addr instr =
     (if \<not> strict_kernel_rwx e then raw_patch_instruction e s addr instr
      else if patching_mm s = None then raw_patch_instruction e s addr instr
      else
        (let (err, pm, s1) = map_patch e s addr pm0
         in if err \<noteq> 0 then (err, s1)
            else
              (let patch_addr = patching_addr s1 OR offset_in_page e addr;
                   s2 = (if \<not> ppc_book3s_64 e then s1\<lparr>user_access_open := True\<rparr> else s1);
                   (err, s3) = uu_patch_instruction e s2 addr instr patch_addr;
                   s4 = (if \<not> ppc_book3s_64 e then s3\<lparr>user_access_open := False\<rparr> else s3);
                   s5 = unmap_patch e s4 pm;
                   s6 = warn_on_mismatch s5 addr instr
               in (err, s6))))"

text \<open>\<^verbatim>\<open>lock_patching\<close> and \<^verbatim>\<open>unlock_patching\<close>: the returned flags are the saved interrupt
  state (1 when interrupts were enabled).\<close>

definition lock_patching :: "environment \<Rightarrow> machine \<Rightarrow> u64 \<times> machine" where
  "lock_patching e s =
     (if \<not> strict_kernel_rwx e then (0, s)
      else if patching_mm s = None then (0, s)
      else ((if irqs_disabled s then 0 else 1),
            s\<lparr>patching_lock_held := True, irqs_disabled := True\<rparr>))"

definition unlock_patching :: "environment \<Rightarrow> machine \<Rightarrow> u64 \<Rightarrow> machine" where
  "unlock_patching e s flags =
     (if \<not> strict_kernel_rwx e then s
      else if patching_mm s = None then s
      else s\<lparr>patching_lock_held := False, irqs_disabled := (flags = 0)\<rparr>)"

text \<open>\<^verbatim>\<open>int patch_instruction(struct ppc_inst *addr, struct ppc_inst instr)\<close>\<close>

definition patch_instruction :: "environment \<Rightarrow> machine \<Rightarrow> patch_mapping \<Rightarrow> u64 \<Rightarrow> ppc_inst \<Rightarrow> int \<times> machine" where
  "patch_instruction e s pm0 addr instr =
     (if init_mem_is_free s \<and> init_section_contains e addr 4 then (0, s)
      else
        (let (flags, s1) = lock_patching e s;
             (err, s2) = do_patch_instruction e s1 pm0 addr instr;
             s3 = unlock_patching e s2 flags
         in (err, s3)))"

text \<open>\<^verbatim>\<open>int patch_instruction_unlocked(struct ppc_inst *addr, struct ppc_inst instr)\<close>\<close>

definition patch_instruction_unlocked :: "environment \<Rightarrow> machine \<Rightarrow> patch_mapping \<Rightarrow> u64 \<Rightarrow> ppc_inst \<Rightarrow> int \<times> machine" where
  "patch_instruction_unlocked e s pm0 addr instr =
     (if init_mem_is_free s \<and> init_section_contains e addr 4 then (0, s)
      else do_patch_instruction e s pm0 addr instr)"

text \<open>\<^verbatim>\<open>patch_branch\<close> and \<^verbatim>\<open>patch_branch_unlocked\<close>: the status of \<^verbatim>\<open>create_branch\<close> is
  dropped; \<open>instr0\<close> is the content of the uninitialised local.\<close>

definition patch_branch :: "environment \<Rightarrow> machine \<Rightarrow> patch_mapping \<Rightarrow> ppc_inst \<Rightarrow> u64 \<Rightarrow> u64 \<Rightarrow> cint \<Rightarrow> int \<times> machine" where
  "patch_branch e s pm0 instr0 addr target flags =
     (let (r, instr) = create_branch instr0 addr target flags
      in patch_instruction e s pm0 addr instr)"

definition patch_branch_unlocked :: "environment \<Rightarrow> machine \<Rightarrow> patch_mapping \<Rightarrow> ppc_inst \<Rightarrow> u64 \<Rightarrow> u64 \<Rightarrow> cint \<Rightarrow> int \<times> machine" where
  "patch_branch_unlocked e s pm0 instr0 addr target flags =
     (let (r, instr) = create_branch instr0 addr target flags
      in patch_instruction_unlocked e s pm0 addr instr)"

section \<open>A concrete machine\<close>

text \<open>
  A Book3S-64 machine with the hash MMU and 64K pages on which \<^verbatim>\<open>hash_page_mm\<close> fails, an
  idle machine state after \<^verbatim>\<open>poking_init\<close> whose init section \<open>[0x1000, 0x2000)\<close> has been
  freed, a memory filled with \<^verbatim>\<open>nop\<close> instructions, and the content of an uninitialised
  \<^verbatim>\<open>patch_mapping\<close>. The theorems below are instantiated on them.
\<close>

definition hash_env :: environment where
  "hash_env = \<lparr>strict_kernel_rwx = True, ppc_book3s_64 = True, radix_enabled = False,
     page_shift = 16, ppc_breakpoint_available = True,
     init_section_contains = (\<lambda>a n. 0x1000 \<le> a \<and> a + of_nat n \<le> 0x2000),
     is_vmalloc_or_module_addr = (\<lambda>a. False),
     kernel_store_ok = (\<lambda>a. False), get_locked_pte_ok = True,
     slb_allocate_user = 0, hash_page_mm = 1\<rparr>"

definition idle_machine :: machine where
  "idle_machine = \<lparr>mem = (\<lambda>a. 0x60000000), accessed = [], init_mem_is_free = True,
     patching_mm = Some 1, patching_addr = 0x10000, scratch_pte = None, scratch_tlb = None,
     ptl_locked = False, active_mm = Some 0, breakpoints = [], user_access_open = False,
     patching_lock_held = True, irqs_disabled = True, warned = False\<rparr>"

definition nop_memory :: memory where
  "nop_memory = (\<lambda>a. 0x60000000)"

definition pm_uninit :: patch_mapping where
  "pm_uninit = \<lparr>ptep = False, pm_temp_mm = \<lparr>temp = None, prev = None, brk = []\<rparr>\<rparr>"

section \<open>Word arithmetic used by the codec proofs\<close>

lemma sint_mod4: "sint (off :: 64 word) mod 4 = uint off mod 4"
proof -
  have "uint off = take_bit 64 (sint off)" by (simp add: uint_sint)
  then have "uint off = sint off mod 2 ^ 64" by (simp add: take_bit_eq_mod)
  then have "uint off mod 4 = sint off mod 2 ^ 64 mod 4" by simp
  also have "\<dots> = sint off mod 4" by (rule mod_mod_cancel) simp
  finally show ?thesis by simp
qed

lemma and3_take: "(off :: 64 word) AND 3 = take_bit 2 off"
  by (simp add: take_bit_eq_mask mask_eq_exp_minus_1)

lemma and3_iff_mod4: "(off :: 64 word) AND 3 = 0 \<longleftrightarrow> sint off mod 4 = 0"
proof -
  have "uint (take_bit 2 off) = take_bit 2 (uint off)"
    by (simp add: unsigned_take_bit_eq)
  then have "uint (take_bit 2 off) = uint off mod 4"
    by (simp only: take_bit_eq_mod) simp
  then have "take_bit 2 off = 0 \<longleftrightarrow> uint off mod 4 = 0"
    by (metis uint_0_iff)
  then show ?thesis by (simp add: and3_take sint_mod4)
qed

lemma sext_generic:
  fixes off :: "64 word"
  assumes n: "n < 63" and lo: "- (2 ^ n) \<le> sint off" and hi: "sint off < 2 ^ n"
  shows "take_bit (Suc n) off AND 2 ^ n \<noteq> 0 \<longrightarrow> take_bit (Suc n) off - 2 ^ Suc n = off"
    and "take_bit (Suc n) off AND 2 ^ n = 0 \<longrightarrow> take_bit (Suc n) off = off"
proof -
  define x where "x = sint off"
  have off: "off = word_of_int x" by (simp add: x_def)
  have "uint off = take_bit 64 x" by (simp add: uint_sint x_def)
  then have u: "uint off = x mod 2 ^ 64" by (simp add: take_bit_eq_mod)
  have "uint (take_bit (Suc n) off) = take_bit (Suc n) (uint off)"
    by (simp add: unsigned_take_bit_eq)
  also have "\<dots> = uint off mod 2 ^ Suc n"
    by (simp only: take_bit_eq_mod)
  also have "\<dots> = x mod 2 ^ Suc n"
    unfolding u using n by (intro mod_mod_cancel le_imp_power_dvd) simp
  finally have t: "uint (take_bit (Suc n) off) = x mod 2 ^ Suc n" .
  have tw: "take_bit (Suc n) off = word_of_int (x mod 2 ^ Suc n)"
    using t by (metis word_of_int_uint)
  have b: "take_bit (Suc n) off AND 2 ^ n \<noteq> 0 \<longleftrightarrow> bit off n"
    by (simp add: and_exp_eq_0_iff_not_bit bit_take_bit_iff)
  have "bit off n \<longleftrightarrow> bit x n"
    using n by (simp add: x_def bit_sint_iff)
  also have "\<dots> \<longleftrightarrow> x < 0"
  proof (cases "x < 0")
    case True
    define p :: int where "p = 2 ^ n"
    have p: "0 < p" by (simp add: p_def)
    have "(x + p) div p = 0" using True lo unfolding x_def [symmetric] p_def [symmetric]
      by (intro div_pos_pos_trivial) simp_all
    moreover have "(x + p) div p = x div p + 1"
      using p div_add_self2 [of p x] by simp
    ultimately have "x div 2 ^ n = - 1" unfolding p_def by linarith
    then show ?thesis using True by (simp add: bit_iff_odd)
  next
    case False
    then have "x div 2 ^ n = 0" using hi unfolding x_def [symmetric] by simp
    then show ?thesis using False by (simp add: bit_iff_odd)
  qed
  finally have s: "bit off n \<longleftrightarrow> x < 0" .
  show "take_bit (Suc n) off AND 2 ^ n \<noteq> 0 \<longrightarrow> take_bit (Suc n) off - 2 ^ Suc n = off"
  proof
    assume "take_bit (Suc n) off AND 2 ^ n \<noteq> 0"
    then have neg: "x < 0" using b s by simp
    define q :: int where "q = 2 ^ Suc n"
    have q: "q = 2 * 2 ^ n" by (simp add: q_def)
    have "(x + q) mod q = x + q" using neg lo unfolding x_def [symmetric] q
      by (intro mod_pos_pos_trivial) simp_all
    moreover have "(x + q) mod q = x mod q" by (rule mod_add_self2)
    ultimately have "x mod 2 ^ Suc n = x + 2 ^ Suc n" unfolding q_def by simp
    then show "take_bit (Suc n) off - 2 ^ Suc n = off" using tw off by simp
  qed
  show "take_bit (Suc n) off AND 2 ^ n = 0 \<longrightarrow> take_bit (Suc n) off = off"
  proof
    assume "take_bit (Suc n) off AND 2 ^ n = 0"
    then have "\<not> x < 0" using b s by simp
    then have "x mod 2 ^ Suc n = x"
      using hi unfolding x_def [symmetric] by simp
    then show "take_bit (Suc n) off = off" using tw off by simp
  qed
qed

lemma ucast_scast_32_64: "(ucast (scast (w :: 32 word) :: 64 word) :: 32 word) = w"
  by (rule bit_word_eqI) (auto simp: bit_simps)

lemma ucast_ucast_32_64: "(ucast (ucast (w :: 64 word) :: 32 word) :: 64 word) = take_bit 32 w"
  by (rule bit_word_eqI) (auto simp: bit_simps)

lemma enc_iform_val:
  "(ucast ((scast (0x48000000 OR (flags AND 0x3) :: 32 word) :: 64 word)
           OR (off AND 0x03FFFFFC)) :: 32 word)
     = 0x48000000 OR (flags AND 3) OR (ucast off AND 0x3FFFFFC)"
proof -
  have "(ucast ((scast (0x48000000 OR (flags AND 0x3) :: 32 word) :: 64 word)
           OR (off AND 0x03FFFFFC)) :: 32 word)
     = ucast (scast (0x48000000 OR (flags AND 0x3) :: 32 word) :: 64 word)
         OR ucast (off AND 0x03FFFFFC)"
    by (simp only: unsigned_or_eq)
  also have "\<dots> = (0x48000000 OR (flags AND 3)) OR (ucast off AND ucast (0x3FFFFFC :: 64 word))"
    by (simp only: ucast_scast_32_64 unsigned_and_eq)
  also have "(ucast (0x3FFFFFC :: 64 word) :: 32 word) = 0x3FFFFFC" by simp
  finally show ?thesis by (simp add: ac_simps)
qed

lemma enc_bform_val:
  "(ucast ((scast (0x40000000 OR (flags AND 0x3FF0003) :: 32 word) :: 64 word)
           OR (off AND 0xFFFC)) :: 32 word)
     = 0x40000000 OR (flags AND 0x3FF0003) OR (ucast off AND 0xFFFC)"
proof -
  have "(ucast ((scast (0x40000000 OR (flags AND 0x3FF0003) :: 32 word) :: 64 word)
           OR (off AND 0xFFFC)) :: 32 word)
     = ucast (scast (0x40000000 OR (flags AND 0x3FF0003) :: 32 word) :: 64 word)
         OR ucast (off AND 0xFFFC)"
    by (simp only: unsigned_or_eq)
  also have "\<dots> = (0x40000000 OR (flags AND 0x3FF0003)) OR (ucast off AND ucast (0xFFFC :: 64 word))"
    by (simp only: ucast_scast_32_64 unsigned_and_eq)
  also have "(ucast (0xFFFC :: 64 word) :: 32 word) = 0xFFFC" by simp
  finally show ?thesis by (simp add: ac_simps)
qed

lemma dec_mask_iform:
  fixes v :: "32 word"
  assumes "v = 0x48000000 OR (flags AND 3) OR (u AND 0x3FFFFFC)"
  shows "v AND 0x3FFFFFC = u AND 0x3FFFFFC" and "v AND 3 = flags AND 3"
    and "v AND 2 = flags AND 2" and "drop_bit 26 v = 18"
  by (simp_all add: assms bit.conj_disj_distrib2 and.assoc)

lemma dec_mask_bform:
  fixes v :: "32 word"
  assumes "v = 0x40000000 OR (flags AND 0x3FF0003) OR (u AND 0xFFFC)"
  shows "v AND 0xFFFC = u AND 0xFFFC" and "v AND 0x3FF0003 = flags AND 0x3FF0003"
    and "v AND 2 = flags AND 2" and "drop_bit 26 v = 16"
  by (simp_all add: assms bit.conj_disj_distrib2 and.assoc)

lemma trunc_mask26:
  "(ucast ((ucast (off :: 64 word) :: 32 word) AND 0x3FFFFFC) :: 64 word) = off AND 0x3FFFFFC"
proof -
  have "(ucast ((ucast off :: 32 word) AND 0x3FFFFFC) :: 64 word)
          = ucast (ucast off :: 32 word) AND ucast (0x3FFFFFC :: 32 word)"
    by (simp only: unsigned_and_eq)
  also have "(ucast (0x3FFFFFC :: 32 word) :: 64 word) = 0x3FFFFFC" by simp
  also have "ucast (ucast off :: 32 word) AND (0x3FFFFFC :: 64 word)
               = (off AND mask 32) AND 0x3FFFFFC"
    by (simp only: ucast_ucast_32_64 take_bit_eq_mask)
  also have "\<dots> = off AND 0x3FFFFFC"
    by (simp add: and.assoc mask_eq_exp_minus_1)
  finally show ?thesis .
qed

lemma trunc_mask16:
  "(ucast ((ucast (off :: 64 word) :: 32 word) AND 0xFFFC) :: 64 word) = off AND 0xFFFC"
proof -
  have "(ucast ((ucast off :: 32 word) AND 0xFFFC) :: 64 word)
          = ucast (ucast off :: 32 word) AND ucast (0xFFFC :: 32 word)"
    by (simp only: unsigned_and_eq)
  also have "(ucast (0xFFFC :: 32 word) :: 64 word) = 0xFFFC" by simp
  also have "ucast (ucast off :: 32 word) AND (0xFFFC :: 64 word)
               = (off AND mask 32) AND 0xFFFC"
    by (simp only: ucast_ucast_32_64 take_bit_eq_mask)
  also have "\<dots> = off AND 0xFFFC"
    by (simp add: and.assoc mask_eq_exp_minus_1)
  finally show ?thesis .
qed

lemma mask26:
  fixes off :: "64 word"
  assumes "off AND 3 = 0"
  shows "off AND 0x3FFFFFC = take_bit 26 off"
proof -
  have "take_bit 26 off = off AND (0x3FFFFFC OR 3)"
    by (simp add: take_bit_eq_mask mask_eq_exp_minus_1)
  also have "\<dots> = (off AND 0x3FFFFFC) OR (off AND 3)"
    by (simp only: bit.conj_disj_distrib)
  finally show ?thesis using assms by simp
qed

lemma mask16:
  fixes off :: "64 word"
  assumes "off AND 3 = 0"
  shows "off AND 0xFFFC = take_bit 16 off"
proof -
  have "take_bit 16 off = off AND (0xFFFC OR 3)"
    by (simp add: take_bit_eq_mask mask_eq_exp_minus_1)
  also have "\<dots> = (off AND 0xFFFC) OR (off AND 3)"
    by (simp only: bit.conj_disj_distrib)
  finally show ?thesis using assms by simp
qed

lemma cond_range_iff:
  fixes off :: "64 word"
  shows "\<not> (word_sless off (- 0x8000) \<or> word_sless 0x7FFF off \<or> off AND 0x3 \<noteq> 0)
           \<longleftrightarrow> - 0x8000 \<le> sint off \<and> sint off \<le> 0x7fff \<and> sint off mod 4 = 0"
  by (simp add: word_sless_alt not_less and3_iff_mod4)

lemma sext26:
  fixes off :: "64 word"
  assumes "is_offset_in_branch_range off"
  shows "(if (off AND 0x3FFFFFC) AND 0x2000000 \<noteq> 0 then (off AND 0x3FFFFFC) - 0x4000000
          else off AND 0x3FFFFFC) = off"
proof -
  from assms have a: "off AND 3 = 0" and lo: "- (2 ^ 25) \<le> sint off" and hi: "sint off < 2 ^ 25"
    by (simp_all add: is_offset_in_branch_range_def word_sle_eq)
  show ?thesis
    using sext_generic [of 25 off] lo hi by (simp add: mask26 [OF a])
qed

lemma sext16:
  fixes off :: "64 word"
  assumes "- 0x8000 \<le> sint off" and "sint off \<le> 0x7fff" and "sint off mod 4 = 0"
  shows "(if (off AND 0xFFFC) AND 0x8000 \<noteq> 0 then (off AND 0xFFFC) - 0x10000
          else off AND 0xFFFC) = off"
proof -
  from assms have a: "off AND 3 = 0" and lo: "- (2 ^ 15) \<le> sint off" and hi: "sint off < 2 ^ 15"
    by (simp_all add: and3_iff_mod4)
  show ?thesis
    using sext_generic [of 15 off] lo hi by (simp add: mask16 [OF a])
qed

lemma opcode_6bit: "drop_bit 26 (v :: 32 word) AND 0x3F = drop_bit 26 v"
proof -
  have "drop_bit 26 v AND mask 6 = drop_bit 26 v"
    by (rule bit_word_eqI) (auto simp: bit_simps dest: bit_imp_le_length)
  then show ?thesis by (simp add: mask_eq_exp_minus_1)
qed

lemma primary_opcode_read:
  "ppc_inst_primary_opcode (ppc_inst_read m p) = drop_bit 26 (m p)"
  by (simp add: ppc_inst_primary_opcode_def ppc_inst_val_def
      ppc_inst_read_def ppc_inst_def ppc_inst_prefix_def Let_def)

lemma branch_opcode_read:
  "branch_opcode (ppc_inst_read m p) = drop_bit 26 (m p)"
  by (simp add: branch_opcode_def primary_opcode_read opcode_6bit)

lemma val_read: "ppc_inst_val (ppc_inst_read m p) = m p"
  by (simp add: ppc_inst_val_def ppc_inst_read_def ppc_inst_def ppc_inst_prefix_def Let_def)

lemma val_ppc_inst: "ppc_inst_val (ppc_inst x) = x"
  by (simp add: ppc_inst_val_def ppc_inst_def)

lemma create_branch_ok:
  assumes "off = (if flags AND 2 = 0 then target - addr else target)"
    and "is_offset_in_branch_range off"
  shows "create_branch instr addr target flags =
           (0, ppc_inst (0x48000000 OR (flags AND 3) OR (ucast off AND 0x3FFFFFC)))"
  using assms by (simp add: create_branch_def Let_def enc_iform_val)

lemma create_branch_fail:
  assumes "off = (if flags AND 2 = 0 then target - addr else target)"
    and "\<not> is_offset_in_branch_range off"
  shows "create_branch instr addr target flags = (1, ppc_inst 0)"
  using assms by (simp add: create_branch_def Let_def)

lemma create_cond_branch_ok:
  assumes "off = (if flags AND 2 = 0 then target - addr else target)"
    and "- 0x8000 \<le> sint off \<and> sint off \<le> 0x7fff \<and> sint off mod 4 = 0"
  shows "create_cond_branch instr addr target flags =
           (0, ppc_inst (0x40000000 OR (flags AND 0x3FF0003) OR (ucast off AND 0xFFFC)))"
proof -
  have "\<not> (word_sless off (- 0x8000) \<or> word_sless 0x7FFF off \<or> off AND 0x3 \<noteq> 0)"
    using assms(2) by (simp only: cond_range_iff)
  then show ?thesis
    using assms(1) by (simp add: create_cond_branch_def Let_def enc_bform_val)
qed

lemma create_cond_branch_fail:
  assumes "off = (if flags AND 2 = 0 then target - addr else target)"
    and "\<not> (- 0x8000 \<le> sint off \<and> sint off \<le> 0x7fff \<and> sint off mod 4 = 0)"
  shows "create_cond_branch instr addr target flags = (1, instr)"
proof -
  have "word_sless off (- 0x8000) \<or> word_sless 0x7FFF off \<or> off AND 0x3 \<noteq> 0"
    using assms(2) cond_range_iff [of off] by blast
  then show ?thesis
    using assms(1) by (simp add: create_cond_branch_def Let_def)
qed

lemma iform_target_enc:
  assumes v: "m p = 0x48000000 OR (flags AND 3) OR (ucast off AND 0x3FFFFFC)"
    and r: "is_offset_in_branch_range off"
  shows "branch_target m p = (if flags AND 2 = 0 then off + p else off)"
proof -
  note f = dec_mask_iform [OF v]
  have i: "instr_is_branch_iform (ppc_inst_read m p)"
    by (simp add: instr_is_branch_iform_def branch_opcode_read f)
  have "(ucast (m p AND 0x3FFFFFC) :: 64 word) = off AND 0x3FFFFFC"
    by (simp only: f trunc_mask26)
  then have "branch_iform_target m p = (if flags AND 2 = 0 then off + p else off)"
    using sext26 [OF r] by (simp add: branch_iform_target_def Let_def f)
  then show ?thesis using i by (simp add: branch_target_def)
qed

lemma bform_target_enc:
  assumes v: "m p = 0x40000000 OR (flags AND 0x3FF0003) OR (ucast off AND 0xFFFC)"
    and r: "- 0x8000 \<le> sint off \<and> sint off \<le> 0x7fff \<and> sint off mod 4 = 0"
  shows "branch_target m p = (if flags AND 2 = 0 then off + p else off)"
proof -
  note f = dec_mask_bform [OF v]
  have i: "\<not> instr_is_branch_iform (ppc_inst_read m p)"
    "instr_is_branch_bform (ppc_inst_read m p)"
    by (simp_all add: instr_is_branch_iform_def instr_is_branch_bform_def branch_opcode_read f)
  have "(ucast (m p AND 0xFFFC) :: 64 word) = off AND 0xFFFC"
    by (simp only: f trunc_mask16)
  then have "branch_bform_target m p = (if flags AND 2 = 0 then off + p else off)"
    using sext16 [of off] r by (simp add: branch_bform_target_def Let_def f)
  then show ?thesis using i by (simp add: branch_target_def)
qed

section \<open>The representable range of the unconditional branch\<close>

text \<open>
  C3. \<^verbatim>\<open>is_offset_in_branch_range(offset)\<close> is true exactly when the offset, read as a
  signed \<^verbatim>\<open>long\<close>, lies in \<open>[-0x2000000, 0x1fffffc]\<close> and is a multiple of 4; the
  boundary offsets 0x1fffffc and -0x2000000 are accepted, 0x2000000 and -0x2000004 are
  rejected.
\<close>

theorem is_offset_in_branch_range_iff:
  "(is_offset_in_branch_range off \<longleftrightarrow>
      - 0x2000000 \<le> sint off \<and> sint off \<le> 0x1fffffc \<and> sint off mod 4 = 0)
   \<and> is_offset_in_branch_range 0x1fffffc
   \<and> is_offset_in_branch_range (- 0x2000000)
   \<and> \<not> is_offset_in_branch_range 0x2000000
   \<and> \<not> is_offset_in_branch_range (- 0x2000004)"
proof -
  have "is_offset_in_branch_range off \<longleftrightarrow>
      - 0x2000000 \<le> sint off \<and> sint off \<le> 0x1fffffc \<and> sint off mod 4 = 0"
    unfolding is_offset_in_branch_range_def word_sle_eq
    by (simp add: and3_iff_mod4)
  moreover have "is_offset_in_branch_range 0x1fffffc"
    by (simp add: is_offset_in_branch_range_def)
  moreover have "is_offset_in_branch_range (- 0x2000000)"
    by (simp add: is_offset_in_branch_range_def)
  moreover have "\<not> is_offset_in_branch_range 0x2000000"
    by (simp add: is_offset_in_branch_range_def)
  moreover have "\<not> is_offset_in_branch_range (- 0x2000004)"
    by (simp add: is_offset_in_branch_range_def)
  ultimately show ?thesis by blast
qed

theorem is_offset_in_branch_range_iff_witness:
  "is_offset_in_branch_range 0x100 \<and> sint (0x100 :: 64 word) mod 4 = 0
   \<and> \<not> is_offset_in_branch_range 0x101"
  using is_offset_in_branch_range_iff [of "0x100"] is_offset_in_branch_range_iff [of "0x101"]
  by simp

section \<open>The encoders\<close>

text \<open>
  C5. \<^verbatim>\<open>create_cond_branch\<close> fails exactly when the computed offset (the target itself
  for an absolute branch, target minus address otherwise), read as a signed
  \<^verbatim>\<open>long\<close>, is below -0x8000, above 0x7fff or not a multiple of 4. On success the
  instruction has primary opcode 16, its bits under the mask 0x3FF0003 are those of
  \<^verbatim>\<open>flags\<close> and its bits under 0xFFFC are those of the offset. Relative offsets 0x7ffc and
  -0x8000 are accepted, 0x8000 and -0x8004 are rejected.
\<close>

theorem create_cond_branch_spec:
  assumes off: "off = (if flags AND BRANCH_ABSOLUTE = 0 then target - addr else target)"
  shows "(fst (create_cond_branch instr addr target flags) \<noteq> 0 \<longleftrightarrow>
            sint off < - 0x8000 \<or> sint off > 0x7fff \<or> sint off mod 4 \<noteq> 0)
       \<and> (fst (create_cond_branch instr addr target flags) = 0 \<longrightarrow>
            ppc_inst_primary_opcode (snd (create_cond_branch instr addr target flags)) = 16
          \<and> ppc_inst_val (snd (create_cond_branch instr addr target flags)) AND 0x3FF0003
               = flags AND 0x3FF0003
          \<and> ppc_inst_val (snd (create_cond_branch instr addr target flags)) AND 0xFFFC
               = ucast off AND 0xFFFC)
       \<and> (flags AND BRANCH_ABSOLUTE = 0 \<longrightarrow>
            fst (create_cond_branch instr addr (addr + 0x7ffc) flags) = 0
          \<and> fst (create_cond_branch instr addr (addr - 0x8000) flags) = 0
          \<and> fst (create_cond_branch instr addr (addr + 0x8000) flags) \<noteq> 0
          \<and> fst (create_cond_branch instr addr (addr - 0x8004) flags) \<noteq> 0)"
proof (intro conjI impI)
  show "fst (create_cond_branch instr addr target flags) \<noteq> 0 \<longleftrightarrow>
            sint off < - 0x8000 \<or> sint off > 0x7fff \<or> sint off mod 4 \<noteq> 0"
  proof (cases "- 0x8000 \<le> sint off \<and> sint off \<le> 0x7fff \<and> sint off mod 4 = 0")
    case True
    then show ?thesis using create_cond_branch_ok [OF off True, of instr] by auto
  next
    case False
    then show ?thesis using create_cond_branch_fail [OF off False, of instr] by auto
  qed
next
  assume z: "fst (create_cond_branch instr addr target flags) = 0"
  have r: "- 0x8000 \<le> sint off \<and> sint off \<le> 0x7fff \<and> sint off mod 4 = 0"
  proof (rule ccontr)
    assume n: "\<not> ?thesis"
    show False using create_cond_branch_fail [OF off n, of instr] z by simp
  qed
  note ok = create_cond_branch_ok [OF off r, of instr]
  note f = dec_mask_bform [OF refl, of flags "ucast off"]
  show "ppc_inst_primary_opcode (snd (create_cond_branch instr addr target flags)) = 16"
    by (simp add: ok ppc_inst_primary_opcode_def val_ppc_inst f)
  show "ppc_inst_val (snd (create_cond_branch instr addr target flags)) AND 0x3FF0003
               = flags AND 0x3FF0003"
    by (simp only: ok snd_conv val_ppc_inst f)
  show "ppc_inst_val (snd (create_cond_branch instr addr target flags)) AND 0xFFFC
               = ucast off AND 0xFFFC"
    by (simp only: ok snd_conv val_ppc_inst f)
next
  assume "flags AND BRANCH_ABSOLUTE = 0"
  then show "fst (create_cond_branch instr addr (addr + 0x7ffc) flags) = 0"
    by (simp add: create_cond_branch_def)
next
  assume "flags AND BRANCH_ABSOLUTE = 0"
  then show "fst (create_cond_branch instr addr (addr - 0x8000) flags) = 0"
    by (simp add: create_cond_branch_def)
next
  assume "flags AND BRANCH_ABSOLUTE = 0"
  then show "fst (create_cond_branch instr addr (addr + 0x8000) flags) \<noteq> 0"
    by (simp add: create_cond_branch_def)
next
  assume "flags AND BRANCH_ABSOLUTE = 0"
  then show "fst (create_cond_branch instr addr (addr - 0x8004) flags) \<noteq> 0"
    by (simp add: create_cond_branch_def)
qed

theorem create_cond_branch_spec_witness:
  "create_cond_branch (ppc_inst 0) 0x1000 0x1100 0xFFFFFFFD = (0, ppc_inst 0x43FF0101)
   \<and> fst (create_cond_branch (ppc_inst 0) 0x1000 (0x1000 + 0x7ffc) 0xFFFFFFFD) = 0
   \<and> fst (create_cond_branch (ppc_inst 0) 0x1000 (0x1000 - 0x8004) 0xFFFFFFFD) \<noteq> 0"
proof -
  have o: "(0x100 :: 64 word) = (if (0xFFFFFFFD :: 32 word) AND BRANCH_ABSOLUTE = 0 then 0x1100 - 0x1000 else 0x1100)"
    by simp
  show ?thesis
    using create_cond_branch_spec [OF o, of "ppc_inst 0"]
    by (simp add: create_cond_branch_def)
qed

text \<open>
  C6. Encoding with an all-ones \<^verbatim>\<open>flags\<close> gives the same result as encoding with only
  the legal flag bits set (0x3 for \<^verbatim>\<open>create_branch\<close>, 0x3FF0003 for
  \<^verbatim>\<open>create_cond_branch\<close>), at every address and target; more generally the result only
  depends on \<^verbatim>\<open>flags\<close> through its legal bits, and a successful \<^verbatim>\<open>create_branch\<close> has
  primary opcode 18 and the displacement bits of the offset.
\<close>

theorem flags_masked:
  assumes off: "off = (if flags AND BRANCH_ABSOLUTE = 0 then target - addr else target)"
  shows "create_branch instr addr target 0xFFFFFFFF = create_branch instr addr target 0x3
       \<and> create_cond_branch instr addr target 0xFFFFFFFF
           = create_cond_branch instr addr target 0x3FF0003
       \<and> create_branch instr addr target flags = create_branch instr addr target (flags AND 0x3)
       \<and> create_cond_branch instr addr target flags
           = create_cond_branch instr addr target (flags AND 0x3FF0003)
       \<and> (fst (create_branch instr addr target flags) = 0 \<longrightarrow>
            ppc_inst_primary_opcode (snd (create_branch instr addr target flags)) = 18
          \<and> ppc_inst_val (snd (create_branch instr addr target flags)) AND 0x3FFFFFC
               = ucast off AND 0x3FFFFFC)"
proof (intro conjI impI)
  show "create_branch instr addr target 0xFFFFFFFF = create_branch instr addr target 0x3"
    by (simp add: create_branch_def)
  show "create_cond_branch instr addr target 0xFFFFFFFF
           = create_cond_branch instr addr target 0x3FF0003"
    by (simp add: create_cond_branch_def)
  have a: "(flags AND 0x3) AND 0x3 = flags AND 0x3" "(flags AND 0x3) AND 0x2 = flags AND 0x2"
    by (simp_all add: and.assoc)
  show "create_branch instr addr target flags = create_branch instr addr target (flags AND 0x3)"
    by (simp only: create_branch_def a)
  have b: "(flags AND 0x3FF0003) AND 0x3FF0003 = flags AND 0x3FF0003"
    "(flags AND 0x3FF0003) AND 0x2 = flags AND 0x2"
    by (simp_all add: and.assoc)
  show "create_cond_branch instr addr target flags
           = create_cond_branch instr addr target (flags AND 0x3FF0003)"
    by (simp only: create_cond_branch_def b)
next
  assume z: "fst (create_branch instr addr target flags) = 0"
  have r: "is_offset_in_branch_range off"
  proof (rule ccontr)
    assume n: "\<not> ?thesis"
    show False using create_branch_fail [OF off n, of instr] z by simp
  qed
  note ok = create_branch_ok [OF off r, of instr]
  note f = dec_mask_iform [OF refl, of flags "ucast off"]
  show "ppc_inst_primary_opcode (snd (create_branch instr addr target flags)) = 18"
    by (simp add: ok ppc_inst_primary_opcode_def val_ppc_inst f)
  show "ppc_inst_val (snd (create_branch instr addr target flags)) AND 0x3FFFFFC
               = ucast off AND 0x3FFFFFC"
    by (simp only: ok snd_conv val_ppc_inst f)
qed

theorem flags_masked_witness:
  "create_branch (ppc_inst 0) 0x1000 0x100 0xFFFFFFFF = (0, ppc_inst 0x48000103)
   \<and> create_branch (ppc_inst 0) 0x1000 0x100 0x3 = (0, ppc_inst 0x48000103)
   \<and> create_cond_branch (ppc_inst 0) 0x1000 0x100 0xFFFFFFFF = (0, ppc_inst 0x43FF0103)
   \<and> create_cond_branch (ppc_inst 0) 0x1000 0x100 0x3FF0003 = (0, ppc_inst 0x43FF0103)"
proof -
  have o: "(0x100 :: 64 word) = (if (0xFFFFFFFF :: 32 word) AND BRANCH_ABSOLUTE = 0 then 0x100 - 0x1000 else 0x100)"
    by simp
  show ?thesis
    using flags_masked [OF o, of "ppc_inst 0"]
    by (simp add: create_branch_def create_cond_branch_def is_offset_in_branch_range_def)
qed

text \<open>
  C4 (as amended). When the computed offset is unrepresentable or misaligned, both
  encoders return the failure status 1 and no truncated or wrapped encoding is produced:
  \<^verbatim>\<open>create_cond_branch\<close> leaves the output instruction as it was, \<^verbatim>\<open>create_branch\<close> leaves
  it holding \<^verbatim>\<open>ppc_inst(0)\<close>, which it stores before the range check.
\<close>

theorem encoders_fail_without_encoding:
  assumes off: "off = (if flags AND BRANCH_ABSOLUTE = 0 then target - addr else target)"
  shows "(\<not> is_offset_in_branch_range off \<longrightarrow>
            create_branch instr addr target flags = (1, ppc_inst 0))
       \<and> (sint off < - 0x8000 \<or> 0x7fff < sint off \<or> sint off mod 4 \<noteq> 0 \<longrightarrow>
            create_cond_branch instr addr target flags = (1, instr))"
proof (intro conjI impI)
  assume "\<not> is_offset_in_branch_range off"
  from create_branch_fail [OF off this]
  show "create_branch instr addr target flags = (1, ppc_inst 0)" .
next
  assume "sint off < - 0x8000 \<or> 0x7fff < sint off \<or> sint off mod 4 \<noteq> 0"
  then have "\<not> (- 0x8000 \<le> sint off \<and> sint off \<le> 0x7fff \<and> sint off mod 4 = 0)"
    by auto
  from create_cond_branch_fail [OF off this]
  show "create_cond_branch instr addr target flags = (1, instr)" .
qed

theorem encoders_fail_without_encoding_witness:
  "create_branch (ppc_inst 0x60000000) 0x1000 0x1003 0 = (1, ppc_inst 0)
   \<and> create_cond_branch (ppc_inst 0x60000000) 0x1000 0x1003 0 = (1, ppc_inst 0x60000000)"
proof -
  have o: "(3 :: 64 word) = (if (0 :: 32 word) AND BRANCH_ABSOLUTE = 0 then 0x1003 - 0x1000 else 0x1003)"
    by simp
  have a: "\<not> is_offset_in_branch_range 3" by (simp add: is_offset_in_branch_range_def)
  have b: "sint (3 :: 64 word) mod 4 \<noteq> 0" by simp
  show ?thesis
    using encoders_fail_without_encoding [OF o, of "ppc_inst 0x60000000"] a b by simp
qed

text \<open>
  The claim as stated (a failed call leaves the output location unmodified) is false for
  \<^verbatim>\<open>create_branch\<close>: at address 0x1000 with the misaligned target 0x1003 the call fails
  and the output, which held a \<^verbatim>\<open>nop\<close>, holds \<^verbatim>\<open>ppc_inst(0)\<close> afterwards.
\<close>

theorem create_branch_writes_on_failure_counterexample:
  "\<not> is_offset_in_branch_range (0x1003 - 0x1000)
   \<and> fst (create_branch (ppc_inst 0x60000000) 0x1000 0x1003 0) \<noteq> 0
   \<and> snd (create_branch (ppc_inst 0x60000000) 0x1000 0x1003 0) \<noteq> ppc_inst 0x60000000"
  by (simp add: create_branch_def is_offset_in_branch_range_def ppc_inst_def)

section \<open>Encoding, then decoding\<close>

lemma create_branch_decodes:
  assumes "create_branch instr addr target flags = (0, new)"
  shows "branch_target (m(addr := ppc_inst_val new)) addr = target"
proof -
  define off where "off = (if flags AND 2 = 0 then target - addr else target)"
  have r: "is_offset_in_branch_range off"
  proof (rule ccontr)
    assume n: "\<not> ?thesis"
    show False using create_branch_fail [OF off_def n, of instr] assms by simp
  qed
  have new: "new = ppc_inst (0x48000000 OR (flags AND 3) OR (ucast off AND 0x3FFFFFC))"
    using create_branch_ok [OF off_def r, of instr] assms by simp
  have "(m(addr := ppc_inst_val new)) addr
          = 0x48000000 OR (flags AND 3) OR (ucast off AND 0x3FFFFFC)"
    by (simp add: new val_ppc_inst)
  from iform_target_enc [of "m(addr := ppc_inst_val new)" addr flags off, OF this r] show ?thesis
    by (simp add: off_def)
qed

lemma create_cond_branch_decodes:
  assumes "create_cond_branch instr addr target flags = (0, new)"
  shows "branch_target (m(addr := ppc_inst_val new)) addr = target"
proof -
  define off where "off = (if flags AND 2 = 0 then target - addr else target)"
  have r: "- 0x8000 \<le> sint off \<and> sint off \<le> 0x7fff \<and> sint off mod 4 = 0"
  proof (rule ccontr)
    assume n: "\<not> ?thesis"
    show False using create_cond_branch_fail [OF off_def n, of instr] assms by simp
  qed
  have new: "new = ppc_inst (0x40000000 OR (flags AND 0x3FF0003) OR (ucast off AND 0xFFFC))"
    using create_cond_branch_ok [OF off_def r, of instr] assms by simp
  have "(m(addr := ppc_inst_val new)) addr
          = 0x40000000 OR (flags AND 0x3FF0003) OR (ucast off AND 0xFFFC)"
    by (simp add: new val_ppc_inst)
  from bform_target_enc [of "m(addr := ppc_inst_val new)" addr flags off, OF this r] show ?thesis
    by (simp add: off_def)
qed

text \<open>
  C2 (as amended). For every source address and every offset that is a multiple of 4 in
  the family's range, and for every \<^verbatim>\<open>flags\<close> whose absolute bit (0x2) is clear, or whose
  absolute bit is set while the target \<open>source + off\<close> itself lies in the family's range,
  the encoder succeeds and \<^verbatim>\<open>branch_target\<close> of the encoded instruction stored at the
  source address is \<open>source + off\<close>.
\<close>

theorem encode_decode_roundtrip:
  "(is_offset_in_branch_range off \<and>
      (flags AND BRANCH_ABSOLUTE = 0 \<or> is_offset_in_branch_range (source + off)) \<longrightarrow>
      fst (create_branch instr source (source + off) flags) = 0 \<and>
      branch_target
        (m(source := ppc_inst_val (snd (create_branch instr source (source + off) flags))))
        source = source + off)
   \<and> ((- 0x8000 \<le> sint off \<and> sint off \<le> 0x7fff \<and> sint off mod 4 = 0) \<and>
      (flags AND BRANCH_ABSOLUTE = 0 \<or>
       (- 0x8000 \<le> sint (source + off) \<and> sint (source + off) \<le> 0x7fff
        \<and> sint (source + off) mod 4 = 0)) \<longrightarrow>
      fst (create_cond_branch instr source (source + off) flags) = 0 \<and>
      branch_target
        (m(source := ppc_inst_val (snd (create_cond_branch instr source (source + off) flags))))
        source = source + off)"
proof (intro conjI impI)
  assume a: "is_offset_in_branch_range off \<and>
      (flags AND BRANCH_ABSOLUTE = 0 \<or> is_offset_in_branch_range (source + off))"
  define o' where "o' = (if flags AND 2 = 0 then (source + off) - source else source + off)"
  have "is_offset_in_branch_range o'" using a by (auto simp: o'_def)
  from create_branch_ok [OF o'_def this, of instr]
  show z: "fst (create_branch instr source (source + off) flags) = 0" by simp
  then have "create_branch instr source (source + off) flags
               = (0, snd (create_branch instr source (source + off) flags))"
    by (metis prod.collapse)
  from create_branch_decodes [OF this]
  show "branch_target
        (m(source := ppc_inst_val (snd (create_branch instr source (source + off) flags))))
        source = source + off" .
next
  assume a: "(- 0x8000 \<le> sint off \<and> sint off \<le> 0x7fff \<and> sint off mod 4 = 0) \<and>
      (flags AND BRANCH_ABSOLUTE = 0 \<or>
       (- 0x8000 \<le> sint (source + off) \<and> sint (source + off) \<le> 0x7fff
        \<and> sint (source + off) mod 4 = 0))"
  define o' where "o' = (if flags AND 2 = 0 then (source + off) - source else source + off)"
  have "- 0x8000 \<le> sint o' \<and> sint o' \<le> 0x7fff \<and> sint o' mod 4 = 0"
    using a by (auto simp: o'_def)
  from create_cond_branch_ok [OF o'_def this, of instr]
  show z: "fst (create_cond_branch instr source (source + off) flags) = 0" by simp
  then have "create_cond_branch instr source (source + off) flags
               = (0, snd (create_cond_branch instr source (source + off) flags))"
    by (metis prod.collapse)
  from create_cond_branch_decodes [OF this]
  show "branch_target
        (m(source := ppc_inst_val (snd (create_cond_branch instr source (source + off) flags))))
        source = source + off" .
qed

theorem encode_decode_roundtrip_witness:
  "branch_target (nop_memory(0x1000 := 0x4BFFFF01)) 0x1000 = 0x1000 + (- 0x100)
   \<and> branch_target (nop_memory(0x1000 := 0x4000FF01)) 0x1000 = 0x1000 + (- 0x100)"
proof -
  have a: "is_offset_in_branch_range (- 0x100)" by (simp add: is_offset_in_branch_range_def)
  have b: "(1 :: 32 word) AND BRANCH_ABSOLUTE = 0" by simp
  have c: "- 0x8000 \<le> sint (- 0x100 :: 64 word) \<and> sint (- 0x100 :: 64 word) \<le> 0x7fff
           \<and> sint (- 0x100 :: 64 word) mod 4 = 0" by simp
  have d: "create_branch (ppc_inst 0) 0x1000 (0x1000 + (- 0x100)) 1 = (0, ppc_inst 0x4BFFFF01)"
    by (simp add: create_branch_def is_offset_in_branch_range_def)
  have e: "create_cond_branch (ppc_inst 0) 0x1000 (0x1000 + (- 0x100)) 1 = (0, ppc_inst 0x4000FF01)"
    by (simp add: create_cond_branch_def)
  show ?thesis
    using encode_decode_roundtrip [of "- 0x100" 1 "0x1000" "ppc_inst 0" nop_memory] a b c
    by (simp only: d e snd_conv val_ppc_inst) simp
qed

text \<open>
  The claim as stated (every flags value) is false: with \<^verbatim>\<open>BRANCH_ABSOLUTE\<close> set the
  encoder range-checks the target itself. At source 0x10000000 with offset 0 the offset is
  in range, the encoder fails, and decoding what it left does not give the source address.
\<close>

theorem roundtrip_absolute_counterexample:
  "is_offset_in_branch_range 0
   \<and> fst (create_branch (ppc_inst 0) 0x10000000 (0x10000000 + 0) BRANCH_ABSOLUTE) \<noteq> 0
   \<and> branch_target
        (nop_memory(0x10000000 := ppc_inst_val
           (snd (create_branch (ppc_inst 0) 0x10000000 (0x10000000 + 0) BRANCH_ABSOLUTE))))
        0x10000000 \<noteq> 0x10000000 + 0"
  by (simp add: create_branch_def is_offset_in_branch_range_def word_sle_eq val_ppc_inst
      branch_target_def instr_is_branch_iform_def instr_is_branch_bform_def branch_opcode_read)

section \<open>Decoding the target\<close>

text \<open>
  C10. For an instruction whose primary opcode is neither 18 nor 16, \<^verbatim>\<open>branch_target\<close>
  returns 0. The same value is returned for a genuine branch to address 0 (the absolute
  branch 0x48000002), so the result 0 alone does not tell the two apart.
\<close>

theorem branch_target_non_branch:
  "(ppc_inst_primary_opcode (ppc_inst_read m p) \<noteq> 18 \<and>
    ppc_inst_primary_opcode (ppc_inst_read m p) \<noteq> 16 \<longrightarrow> branch_target m p = 0)
   \<and> (m p = 0x48000002 \<longrightarrow>
        ppc_inst_primary_opcode (ppc_inst_read m p) = 18 \<and> branch_target m p = 0)"
proof (intro conjI impI)
  assume "ppc_inst_primary_opcode (ppc_inst_read m p) \<noteq> 18 \<and>
    ppc_inst_primary_opcode (ppc_inst_read m p) \<noteq> 16"
  then show "branch_target m p = 0"
    by (simp add: branch_target_def instr_is_branch_iform_def instr_is_branch_bform_def
        branch_opcode_read primary_opcode_read)
next
  assume v: "m p = 0x48000002"
  then show "ppc_inst_primary_opcode (ppc_inst_read m p) = 18"
    by (simp add: primary_opcode_read)
  show "branch_target m p = 0"
    using v by (simp add: branch_target_def instr_is_branch_iform_def branch_opcode_read
        branch_iform_target_def)
qed

theorem branch_target_non_branch_witness:
  "branch_target nop_memory 0x1000 = 0 \<and>
   branch_target (nop_memory(0x1000 := 0x48000002)) 0x1000 = 0"
proof -
  have a: "ppc_inst_primary_opcode (ppc_inst_read nop_memory 0x1000) \<noteq> 18 \<and>
    ppc_inst_primary_opcode (ppc_inst_read nop_memory 0x1000) \<noteq> 16"
    by (simp add: primary_opcode_read nop_memory_def)
  show ?thesis
    using branch_target_non_branch [of nop_memory "0x1000"]
      branch_target_non_branch [of "nop_memory(0x1000 := 0x48000002)" "0x1000"] a
    by simp
qed

section \<open>Relocating a branch\<close>

text \<open>
  C1. Let the word at \<^verbatim>\<open>src\<close> be a direct branch (primary opcode 18 or 16) and let the new
  offset be its decoded target minus \<^verbatim>\<open>dest\<close> (the target itself for an absolute
  branch). \<^verbatim>\<open>translate_branch\<close> succeeds exactly when the new offset is within the range
  of the branch's family. On success the new instruction has the same primary opcode, its
  target decoded at \<^verbatim>\<open>dest\<close> is the old instruction's target decoded at \<^verbatim>\<open>src\<close>, and its
  flag bits (0x3, and the condition bits 0x3FF0000 of the conditional family) are those of
  the old instruction. Otherwise it returns 1 and no branch is produced: the output holds
  \<^verbatim>\<open>ppc_inst(0)\<close> for the unconditional family and is untouched for the conditional one.
\<close>

theorem translate_branch_relocates:
  assumes op: "ppc_inst_primary_opcode (ppc_inst_read m src) = 18 \<or>
               ppc_inst_primary_opcode (ppc_inst_read m src) = 16"
    and off: "off = (if m src AND BRANCH_ABSOLUTE = 0 then branch_target m src - dest
                     else branch_target m src)"
    and res: "translate_branch instr dest m src = (err, new)"
  shows "(err = 0 \<longleftrightarrow>
            (if ppc_inst_primary_opcode (ppc_inst_read m src) = 18
             then is_offset_in_branch_range off
             else - 0x8000 \<le> sint off \<and> sint off \<le> 0x7fff \<and> sint off mod 4 = 0))
       \<and> (err = 0 \<longrightarrow>
            ppc_inst_primary_opcode new = ppc_inst_primary_opcode (ppc_inst_read m src)
          \<and> branch_target (m'(dest := ppc_inst_val new)) dest = branch_target m src
          \<and> (ppc_inst_primary_opcode (ppc_inst_read m src) = 18 \<longrightarrow>
               ppc_inst_val new AND 0x3 = m src AND 0x3)
          \<and> (ppc_inst_primary_opcode (ppc_inst_read m src) = 16 \<longrightarrow>
               ppc_inst_val new AND 0x3FF0003 = m src AND 0x3FF0003))
       \<and> (err \<noteq> 0 \<longrightarrow>
            err = 1
          \<and> (ppc_inst_primary_opcode (ppc_inst_read m src) = 18 \<longrightarrow> new = ppc_inst 0)
          \<and> (ppc_inst_primary_opcode (ppc_inst_read m src) = 16 \<longrightarrow> new = instr))"
proof -
  from op show ?thesis
  proof
    assume o: "ppc_inst_primary_opcode (ppc_inst_read m src) = 18"
    then have i: "instr_is_branch_iform (ppc_inst_read m src)"
      by (simp add: instr_is_branch_iform_def branch_opcode_read primary_opcode_read)
    have t: "translate_branch instr dest m src
               = create_branch instr dest (branch_target m src) (m src)"
      using i by (simp add: translate_branch_def Let_def val_read)
    show ?thesis
    proof (cases "is_offset_in_branch_range off")
      case True
      have c: "create_branch instr dest (branch_target m src) (m src)
                 = (0, ppc_inst (0x48000000 OR (m src AND 3) OR (ucast off AND 0x3FFFFFC)))"
        by (rule create_branch_ok [OF off True])
      then have e: "err = 0"
        and n: "new = ppc_inst (0x48000000 OR (m src AND 3) OR (ucast off AND 0x3FFFFFC))"
        using res t by simp_all
      note f = dec_mask_iform [OF refl, of "m src" "ucast off"]
      have d: "branch_target (m'(dest := ppc_inst_val new)) dest = branch_target m src"
        using create_branch_decodes [of instr dest "branch_target m src" "m src" new m'] c n
        by simp
      have p: "ppc_inst_primary_opcode new = 18"
        by (simp add: n ppc_inst_primary_opcode_def val_ppc_inst f)
      have g: "ppc_inst_val new AND 0x3 = m src AND 0x3"
        by (simp only: n val_ppc_inst f)
      show ?thesis using True e d p g o by simp
    next
      case False
      have "create_branch instr dest (branch_target m src) (m src) = (1, ppc_inst 0)"
        by (rule create_branch_fail [OF off False])
      then have "err = 1" and "new = ppc_inst 0" using res t by simp_all
      then show ?thesis using False o by simp
    qed
  next
    assume o: "ppc_inst_primary_opcode (ppc_inst_read m src) = 16"
    then have i: "\<not> instr_is_branch_iform (ppc_inst_read m src)"
      "instr_is_branch_bform (ppc_inst_read m src)"
      by (simp_all add: instr_is_branch_iform_def instr_is_branch_bform_def
          branch_opcode_read primary_opcode_read)
    have t: "translate_branch instr dest m src
               = create_cond_branch instr dest (branch_target m src) (m src)"
      using i by (simp add: translate_branch_def Let_def val_read)
    show ?thesis
    proof (cases "- 0x8000 \<le> sint off \<and> sint off \<le> 0x7fff \<and> sint off mod 4 = 0")
      case True
      have c: "create_cond_branch instr dest (branch_target m src) (m src)
                 = (0, ppc_inst (0x40000000 OR (m src AND 0x3FF0003) OR (ucast off AND 0xFFFC)))"
        by (rule create_cond_branch_ok [OF off True])
      then have e: "err = 0"
        and n: "new = ppc_inst (0x40000000 OR (m src AND 0x3FF0003) OR (ucast off AND 0xFFFC))"
        using res t by simp_all
      note f = dec_mask_bform [OF refl, of "m src" "ucast off"]
      have d: "branch_target (m'(dest := ppc_inst_val new)) dest = branch_target m src"
        using create_cond_branch_decodes [of instr dest "branch_target m src" "m src" new m'] c n
        by simp
      have p: "ppc_inst_primary_opcode new = 16"
        by (simp add: n ppc_inst_primary_opcode_def val_ppc_inst f)
      have g: "ppc_inst_val new AND 0x3FF0003 = m src AND 0x3FF0003"
        by (simp only: n val_ppc_inst f)
      show ?thesis using True e d p g o by simp
    next
      case False
      have "create_cond_branch instr dest (branch_target m src) (m src) = (1, instr)"
        by (rule create_cond_branch_fail [OF off False])
      then have "err = 1" and "new = instr" using res t by simp_all
      then show ?thesis using False o by simp
    qed
  qed
qed

theorem translate_branch_relocates_witness:
  "translate_branch (ppc_inst 0) 0x1004 (nop_memory(0x1000 := 0x48000000)) 0x1000
     = (0, ppc_inst 0x4BFFFFFC)
   \<and> branch_target (nop_memory(0x1004 := 0x4BFFFFFC)) 0x1004 = 0x1000
   \<and> branch_target (nop_memory(0x1000 := 0x48000000)) 0x1000 = 0x1000"
proof -
  have bt: "branch_target (nop_memory(0x1000 := 0x48000000)) 0x1000 = 0x1000"
    by (simp add: branch_target_def instr_is_branch_iform_def branch_opcode_read
        branch_iform_target_def)
  have op: "ppc_inst_primary_opcode (ppc_inst_read (nop_memory(0x1000 := 0x48000000)) 0x1000) = 18 \<or>
            ppc_inst_primary_opcode (ppc_inst_read (nop_memory(0x1000 := 0x48000000)) 0x1000) = 16"
    by (simp add: primary_opcode_read)
  have off: "(- 4 :: 64 word) =
     (if (nop_memory(0x1000 := 0x48000000)) 0x1000 AND BRANCH_ABSOLUTE = 0
      then branch_target (nop_memory(0x1000 := 0x48000000)) 0x1000 - 0x1004
      else branch_target (nop_memory(0x1000 := 0x48000000)) 0x1000)"
    by (simp add: bt)
  have res: "translate_branch (ppc_inst 0) 0x1004 (nop_memory(0x1000 := 0x48000000)) 0x1000
     = (0, ppc_inst 0x4BFFFFFC)"
    by (simp add: translate_branch_def bt instr_is_branch_iform_def branch_opcode_read
        val_read create_branch_def is_offset_in_branch_range_def)
  show ?thesis
    using translate_branch_relocates [OF op off res, of nop_memory] res bt
    by (simp add: val_ppc_inst)
qed

section \<open>Classification of conditional branches\<close>

lemma opc_unat: "(drop_bit 26 (w :: 32 word) = c) \<longleftrightarrow> unat w div 2 ^ 26 = unat c"
  by (metis drop_bit_eq_div unat_drop_bit_eq unsigned_word_eqI)

lemma mid_unat:
  "(drop_bit 1 (w :: 32 word) AND 0x3ff = c) \<longleftrightarrow> (unat w div 2) mod 1024 = unat c"
proof -
  have a: "drop_bit 1 w AND 0x3ff = take_bit 10 (drop_bit 1 w)"
    by (simp add: take_bit_eq_mask mask_eq_exp_minus_1)
  have "unat (take_bit 10 (drop_bit 1 w)) = take_bit 10 (drop_bit 1 (unat w))"
    by (simp only: unsigned_take_bit_eq unat_drop_bit_eq)
  also have "\<dots> = (unat w div 2) mod 1024"
    by (simp only: take_bit_eq_mod drop_bit_eq_div) simp
  finally have "unat (drop_bit 1 w AND 0x3ff) = (unat w div 2) mod 1024"
    by (simp only: a)
  then show ?thesis by (metis unsigned_word_eqI)
qed

text \<open>
  C9. \<^verbatim>\<open>is_conditional_branch\<close> is true exactly when the primary opcode (the instruction
  word divided by \<open>2^26\<close>) is 16, or it is 19 and the ten bits above the lowest one
  (\<open>(value >> 1) & 0x3ff\<close>) are 16, 528 or 560. No other bit of the instruction and no
  suffix takes part.
\<close>

theorem is_conditional_branch_iff:
  "is_conditional_branch instr \<longleftrightarrow>
     unat (ppc_inst_val instr) div 2 ^ 26 = 16 \<or>
     (unat (ppc_inst_val instr) div 2 ^ 26 = 19 \<and>
      (unat (ppc_inst_val instr) div 2) mod 1024 \<in> {16, 528, 560})"
proof -
  have o: "\<And>c. ppc_inst_primary_opcode instr = c
             \<longleftrightarrow> unat (ppc_inst_val instr) div 2 ^ 26 = unat c"
    by (simp only: ppc_inst_primary_opcode_def opc_unat)
  show ?thesis
    by (simp only: is_conditional_branch_def Let_def o mid_unat) auto
qed

theorem is_conditional_branch_iff_witness:
  "is_conditional_branch (ppc_inst 0x4E800020) \<and> is_conditional_branch (ppc_inst 0x41820010) \<and>
   \<not> is_conditional_branch (ppc_inst 0x48000000) \<and> \<not> is_conditional_branch (ppc_inst 0x4C00012C)"
  using is_conditional_branch_iff [of "ppc_inst 0x4E800020"]
    is_conditional_branch_iff [of "ppc_inst 0x41820010"]
    is_conditional_branch_iff [of "ppc_inst 0x48000000"]
    is_conditional_branch_iff [of "ppc_inst 0x4C00012C"]
  by (simp add: ppc_inst_def ppc_inst_val_def)

section \<open>The patch facade and the secure write channel\<close>

text \<open>
  C8. When the init memory has been freed and the four bytes at the address lie in the
  init section, \<^verbatim>\<open>patch_instruction\<close> and \<^verbatim>\<open>patch_instruction_unlocked\<close> return 0 and
  leave the whole machine state as it was: memory is unchanged and no load or store is
  added to the record of accesses.
\<close>

theorem freed_init_guard:
  assumes "init_mem_is_free s" and "init_section_contains e addr 4"
  shows "patch_instruction e s pm0 addr instr = (0, s) \<and>
         patch_instruction_unlocked e s pm0 addr instr = (0, s)"
  using assms by (simp add: patch_instruction_def patch_instruction_unlocked_def)

theorem freed_init_guard_witness:
  "patch_instruction hash_env idle_machine pm_uninit 0x1ffc (ppc_inst 0x48000000)
     = (0, idle_machine) \<and>
   patch_instruction_unlocked hash_env idle_machine pm_uninit 0x1ffc (ppc_inst 0x48000000)
     = (0, idle_machine)"
proof -
  have a: "init_mem_is_free idle_machine" by (simp add: idle_machine_def)
  have b: "init_section_contains hash_env 0x1ffc 4" by (simp add: hash_env_def)
  show ?thesis using freed_init_guard [OF a b] by simp
qed

text \<open>
  When \<^verbatim>\<open>map_patch\<close> succeeds, \<^verbatim>\<open>do_patch_instruction\<close> tears the mapping down whatever
  the store does: the scratch entry and its cached translation are gone, the page-table
  lock is released and the previous address space is active again.
\<close>

lemma unuse_fields:
  "scratch_pte (unuse_temporary_mm e s tm) = scratch_pte s"
  "scratch_tlb (unuse_temporary_mm e s tm) = scratch_tlb s"
  "ptl_locked (unuse_temporary_mm e s tm) = ptl_locked s"
  "active_mm (unuse_temporary_mm e s tm) = prev tm"
  by (simp_all add: unuse_temporary_mm_def Let_def)

lemma unmap_patch_fields:
  "scratch_pte (unmap_patch e s pm) = None"
  "scratch_tlb (unmap_patch e s pm) = None"
  "\<not> ptl_locked (unmap_patch e s pm)"
  "active_mm (unmap_patch e s pm) = prev (pm_temp_mm pm)"
  by (simp_all add: unmap_patch_def Let_def unuse_fields)

lemma warn_fields:
  "scratch_pte (warn_on_mismatch s a i) = scratch_pte s"
  "scratch_tlb (warn_on_mismatch s a i) = scratch_tlb s"
  "ptl_locked (warn_on_mismatch s a i) = ptl_locked s"
  "active_mm (warn_on_mismatch s a i) = active_mm s"
  by (simp_all add: warn_on_mismatch_def Let_def)

lemma map_patch_prev:
  assumes "get_locked_pte_ok e" and "map_patch e s addr pm0 = (err, pm, s1)"
  shows "prev (pm_temp_mm pm) = active_mm s"
  using assms
  by (auto simp: map_patch_def use_temporary_mm_def init_temp_mm_def Let_def
      split: prod.splits if_splits)

lemma do_patch_instruction_teardown:
  assumes "strict_kernel_rwx e" and "patching_mm s = Some mm" and "get_locked_pte_ok e"
    and "fst (map_patch e s addr pm0) = 0"
  shows "scratch_pte (snd (do_patch_instruction e s pm0 addr instr)) = None \<and>
         scratch_tlb (snd (do_patch_instruction e s pm0 addr instr)) = None \<and>
         \<not> ptl_locked (snd (do_patch_instruction e s pm0 addr instr)) \<and>
         active_mm (snd (do_patch_instruction e s pm0 addr instr)) = active_mm s"
proof -
  obtain err pm s1 where m: "map_patch e s addr pm0 = (err, pm, s1)"
    by (metis prod_cases3)
  then have z: "err = 0" using assms(4) by simp
  note p = map_patch_prev [OF assms(3) m]
  show ?thesis
    using assms(1,2) p
    by (simp add: do_patch_instruction_def m z Let_def unmap_patch_fields warn_fields
        split: prod.splits)
qed

text \<open>
  C7. The teardown of the scratch mapping does not hold on every return of
  \<^verbatim>\<open>do_patch_instruction\<close>. With the hash MMU, when \<^verbatim>\<open>hash_page_mm\<close> fails,
  \<^verbatim>\<open>map_patch\<close> returns the error after it has installed the scratch page-table entry
  and switched to the patching address space; \<^verbatim>\<open>do_patch_instruction\<close> then returns at
  \<^verbatim>\<open>if (err) return err;\<close> without calling \<^verbatim>\<open>unmap_patch\<close>: the entry stays installed,
  the patching address space stays active and the page-table lock stays held.
\<close>

theorem do_patch_instruction_leaks_mapping:
  assumes "strict_kernel_rwx e" and "ppc_book3s_64 e" and "\<not> radix_enabled e"
    and "get_locked_pte_ok e" and "hash_page_mm e \<noteq> 0" and "patching_mm s = Some mm"
  shows "fst (do_patch_instruction e s pm0 addr instr) = hash_page_mm e \<and>
         scratch_pte (snd (do_patch_instruction e s pm0 addr instr))
           = Some (addr AND PAGE_MASK e, PAGE_SHARED) \<and>
         active_mm (snd (do_patch_instruction e s pm0 addr instr)) = Some mm \<and>
         ptl_locked (snd (do_patch_instruction e s pm0 addr instr)) \<and>
         mem (snd (do_patch_instruction e s pm0 addr instr)) = mem s"
  using assms
  by (simp add: do_patch_instruction_def map_patch_def hash_prefault_mapping_def
      use_temporary_mm_def init_temp_mm_def virt_to_page_def vmalloc_to_page_def Let_def
      split: prod.splits)

theorem do_patch_instruction_leaks_mapping_witness:
  "fst (do_patch_instruction hash_env idle_machine pm_uninit 0xc000000000001234
          (ppc_inst 0x48000000)) = 1 \<and>
   scratch_pte (snd (do_patch_instruction hash_env idle_machine pm_uninit 0xc000000000001234
          (ppc_inst 0x48000000))) = Some (0xc000000000000000, PAGE_SHARED) \<and>
   active_mm (snd (do_patch_instruction hash_env idle_machine pm_uninit 0xc000000000001234
          (ppc_inst 0x48000000))) = Some 1 \<and>
   ptl_locked (snd (do_patch_instruction hash_env idle_machine pm_uninit 0xc000000000001234
          (ppc_inst 0x48000000)))"
proof -
  have h: "strict_kernel_rwx hash_env" "ppc_book3s_64 hash_env" "\<not> radix_enabled hash_env"
    "get_locked_pte_ok hash_env" "hash_page_mm hash_env \<noteq> 0"
    by (simp_all add: hash_env_def)
  have p: "patching_mm idle_machine = Some 1" by (simp add: idle_machine_def)
  have v: "0xc000000000001234 AND PAGE_MASK hash_env = 0xc000000000000000"
    by (simp add: PAGE_MASK_def hash_env_def mask_eq_exp_minus_1)
  have w: "hash_page_mm hash_env = 1" by (simp add: hash_env_def)
  show ?thesis
    using do_patch_instruction_leaks_mapping
      [OF h p, of pm_uninit "0xc000000000001234" "ppc_inst 0x48000000"]
    by (simp add: v w)
qed

end
